theory Spec2Isabelle
  imports Main "HOL-Library.Sublist"
begin

section \<open>Python values, exceptions and the outside world\<close>

text \<open>
  The tools and the agents exchange JSON-like Python values. \<open>PyObject\<close> stands for
  any other Python object (a date, a decimal, a provider-side container), named by its
  type. A dict keeps its items in insertion order.
\<close>

datatype pyval =
    PyNone
  | PyBool bool
  | PyInt int
  | PyStr string
  | PyList "pyval list"
  | PyDict "(string \<times> pyval) list"
  | PyObject string

text \<open>
  An exception is its class and its message (\<open>str(e)\<close>). All classes below derive from
  \<open>Exception\<close>, so \<open>except Exception\<close> catches every value of \<open>exn\<close>.
\<close>

datatype exn_class =
  TypeError | KeyError | IndexError | ValueError | JSONDecodeError | OtherException

datatype exn = Exn exn_class string

fun str_exn :: "exn \<Rightarrow> string" where
  "str_exn (Exn c m) = m"

definition quoted :: "string \<Rightarrow> string" where
  "quoted s = CHR 0x27 # s @ [CHR 0x27]"

definition digit_char :: "nat \<Rightarrow> char" where
  "digit_char d = ''0123456789'' ! d"

function str_nat :: "nat \<Rightarrow> string" where
  "str_nat n = (if n < 10 then [digit_char n] else str_nat (n div 10) @ [digit_char (n mod 10)])"
  by pat_completeness auto
termination
  by (relation "measure id") auto

declare str_nat.simps [simp del]

definition str_int :: "int \<Rightarrow> string" where
  "str_int i = (if i < 0 then CHR ''-'' # str_nat (nat (- i)) else str_nat (nat i))"

text \<open>Python's \<open><\<close> on two \<open>str\<close> values: lexicographic, by code point.\<close>

fun str_lt :: "string \<Rightarrow> string \<Rightarrow> bool" where
  "str_lt [] [] = False"
| "str_lt [] (y # ys) = True"
| "str_lt (x # xs) [] = False"
| "str_lt (x # xs) (y # ys) =
     ((of_char x :: nat) < of_char y \<or> (x = y \<and> str_lt xs ys))"

text \<open>
  A row of the \<open>prescriptions\<close> table, with the columns \<open>request_prescription_refill\<close>
  reads. The schema is not part of the sources; the column types are the ones the
  function's own comparisons presuppose (\<open>user_id\<close> against a \<open>str\<close>, \<open>int(...)\<close> of
  \<open>refills_remaining\<close>, \<open>expires_at\<close> against an ISO date string).
\<close>

record prescription_row =
  rx_user_id :: string
  rx_refills_remaining :: int
  rx_expires_at :: string

text \<open>
  Everything outside the repository is a parameter: the data store behind \<open>db.py\<close>
  (an opaque state \<open>'w\<close>; \<open>exec_sql\<close> commits or raises and leaves the store as it was,
  \<open>query_one\<close> only reads), the clock, the bodies of the tool functions once their
  arguments are bound, and the \<open>json\<close> module.
\<close>

record 'w env =
  exec_sql :: "string \<Rightarrow> pyval list \<Rightarrow> 'w \<Rightarrow> exn + 'w"
  query_one :: "string \<Rightarrow> pyval list \<Rightarrow> 'w \<Rightarrow> exn + prescription_row option"
  utc_today_iso :: "'w \<Rightarrow> string"
  utc_timestamp_ms :: "'w \<Rightarrow> string"
  utc_now_iso :: "'w \<Rightarrow> string"
  tool_body :: "string \<Rightarrow> (string \<times> pyval) list \<Rightarrow> 'w \<Rightarrow> (exn + pyval) \<times> 'w"
  json_loads :: "string \<Rightarrow> exn + pyval"
  json_dumps :: "pyval \<Rightarrow> exn + string"

section \<open>tools.py\<close>

subsection \<open>request_prescription_refill\<close>

definition rejection :: "string \<Rightarrow> pyval" where
  "rejection err = PyDict [(''accepted'', PyBool False), (''error'', PyStr err)]"

definition refill_request_id :: "string \<Rightarrow> string \<Rightarrow> string" where
  "refill_request_id timestamp prescription_id = ''RR-'' @ timestamp @ ''-'' @ prescription_id"

definition insert_refill_sql :: string where
  "insert_refill_sql = ''INSERT INTO refill_requests VALUES (%s,%s,%s,%s,%s)''"

definition decrement_refills_sql :: string where
  "decrement_refills_sql =
     ''UPDATE prescriptions SET refills_remaining = refills_remaining - 1 WHERE prescription_id=%s''"

definition insert_refill_params :: "'w env \<Rightarrow> string \<Rightarrow> string \<Rightarrow> 'w \<Rightarrow> pyval list" where
  "insert_refill_params E user_id prescription_id w =
     [PyStr (refill_request_id (utc_timestamp_ms E w) prescription_id), PyStr prescription_id,
      PyStr user_id, PyStr ''submitted'', PyStr (utc_now_iso E w @ ''Z'')]"

definition acceptance :: "string \<Rightarrow> pyval" where
  "acceptance rrid =
     PyDict [(''accepted'', PyBool True), (''refill_request_id'', PyStr rrid),
             (''status'', PyStr ''submitted''), (''eta_hours'', PyInt 4)]"

definition request_prescription_refill ::
  "'w env \<Rightarrow> string \<Rightarrow> string \<Rightarrow> 'w \<Rightarrow> (exn + pyval) \<times> 'w" where
  "request_prescription_refill E user_id prescription_id w =
     (case query_one E ''SELECT * FROM prescriptions WHERE prescription_id=%s''
             [PyStr prescription_id] w of
        Inl e \<Rightarrow> (Inl e, w)
      | Inr None \<Rightarrow> (Inr (rejection ''NOT_FOUND''), w)
      | Inr (Some rx) \<Rightarrow>
          if rx_user_id rx \<noteq> user_id then (Inr (rejection ''UNAUTHORIZED''), w)
          else if rx_refills_remaining rx \<le> 0 then (Inr (rejection ''NO_REFILLS''), w)
          else if str_lt (rx_expires_at rx) (utc_today_iso E w) then (Inr (rejection ''EXPIRED''), w)
          else
            (case exec_sql E insert_refill_sql (insert_refill_params E user_id prescription_id w) w of
               Inl e \<Rightarrow> (Inl e, w)
             | Inr w1 \<Rightarrow>
                 (case exec_sql E decrement_refills_sql [PyStr prescription_id] w1 of
                    Inl e \<Rightarrow> (Inl e, w1)
                  | Inr w2 \<Rightarrow>
                      (Inr (acceptance (refill_request_id (utc_timestamp_ms E w) prescription_id)),
                       w2))))"

subsection \<open>_increment_tool_stat\<close>

definition increment_sql :: string where
  "increment_sql =
     ''INSERT INTO tool_stats (tool_name, call_count) VALUES (%s, 1) ON CONFLICT (tool_name) DO UPDATE SET call_count = tool_stats.call_count + 1''"

text \<open>The \<open>try\<close> around \<open>exec_sql\<close> catches \<open>Exception\<close>, logs and returns: nothing is raised.\<close>

definition increment_tool_stat :: "'w env \<Rightarrow> string \<Rightarrow> 'w \<Rightarrow> (exn + unit) \<times> 'w" where
  "increment_tool_stat E tool_name w =
     (case exec_sql E increment_sql [PyStr tool_name] w of
        Inl e \<Rightarrow> (Inr (), w)
      | Inr w' \<Rightarrow> (Inr (), w'))"

subsection \<open>The tool functions' signatures and Python's keyword call\<close>

text \<open>
  A tool function as \<open>run_tool\<close> sees it: its name and its parameters in order, each
  with the flag "has a default". No tool takes \<open>**kwargs\<close>.
\<close>

record pyfunc =
  func_name :: string
  func_params :: "(string \<times> bool) list"

definition tool_map :: "(string \<times> pyfunc) list" where
  "tool_map =
     [(''get_medication_by_name'',
         \<lparr>func_name = ''get_medication_by_name'', func_params = [(''name'', False)]\<rparr>),
      (''list_medications'',
         \<lparr>func_name = ''list_medications'',
          func_params = [(''search_term'', True), (''limit'', True)]\<rparr>),
      (''search_users'',
         \<lparr>func_name = ''search_users'',
          func_params = [(''name'', True), (''email'', True), (''phone'', True), (''user_id'', True)]\<rparr>),
      (''check_stock_availability'',
         \<lparr>func_name = ''check_stock_availability'',
          func_params = [(''med_id'', False), (''store_id'', False)]\<rparr>),
      (''list_user_prescriptions'',
         \<lparr>func_name = ''list_user_prescriptions'', func_params = [(''user_id'', False)]\<rparr>),
      (''request_prescription_refill'',
         \<lparr>func_name = ''request_prescription_refill'',
          func_params = [(''user_id'', False), (''prescription_id'', False)]\<rparr>),
      (''query_medications_flexible'',
         \<lparr>func_name = ''query_medications_flexible'',
          func_params = [(''brand_name'', True), (''generic_name'', True), (''active_ingredient'', True),
                         (''form'', True), (''strength'', True), (''rx_required'', True),
                         (''limit'', True)]\<rparr>),
      (''query_medications_with_stock'',
         \<lparr>func_name = ''query_medications_with_stock'',
          func_params = [(''search_term'', True), (''active_ingredient'', True), (''form'', True),
                         (''rx_required'', True), (''store_ids'', True), (''in_stock_only'', True),
                         (''limit'', True)]\<rparr>),
      (''query_stock_multiple_stores'',
         \<lparr>func_name = ''query_stock_multiple_stores'',
          func_params = [(''med_id'', True), (''med_name'', True), (''store_ids'', True),
                         (''in_stock_only'', True)]\<rparr>),
      (''list_stores'',
         \<lparr>func_name = ''list_stores'', func_params = [(''city'', True)]\<rparr>),
      (''query_prescriptions_flexible'',
         \<lparr>func_name = ''query_prescriptions_flexible'',
          func_params = [(''user_id'', True), (''med_id'', True), (''med_name'', True),
                         (''expiring_soon_days'', True), (''has_refills'', True),
                         (''limit'', True)]\<rparr>)]"

definition required_params :: "pyfunc \<Rightarrow> string list" where
  "required_params f = map fst (filter (\<lambda>p. \<not> snd p) (func_params f))"

definition missing_params :: "pyfunc \<Rightarrow> (string \<times> pyval) list \<Rightarrow> string list" where
  "missing_params f kw = filter (\<lambda>p. p \<notin> set (map fst kw)) (required_params f)"

definition unexpected_keywords :: "pyfunc \<Rightarrow> (string \<times> pyval) list \<Rightarrow> string list" where
  "unexpected_keywords f kw = filter (\<lambda>k. k \<notin> set (map fst (func_params f))) (map fst kw)"

text \<open>CPython's list of the missing names: \<open>'a'\<close>, \<open>'a' and 'b'\<close>, \<open>'a', 'b', and 'c'\<close>.\<close>

fun name_list_tail :: "string list \<Rightarrow> string" where
  "name_list_tail [] = []"
| "name_list_tail [z] = ''and '' @ quoted z"
| "name_list_tail (y # z # ns) = quoted y @ '', '' @ name_list_tail (z # ns)"

fun name_list :: "string list \<Rightarrow> string" where
  "name_list [] = []"
| "name_list [a] = quoted a"
| "name_list [a, b] = quoted a @ '' and '' @ quoted b"
| "name_list (a # b # c # ns) = quoted a @ '', '' @ name_list_tail (b # c # ns)"

definition missing_message :: "pyfunc \<Rightarrow> string list \<Rightarrow> string" where
  "missing_message f ns =
     func_name f @ ''() missing '' @ str_nat (length ns) @ '' required positional argument''
       @ (if length ns = 1 then [] else ''s'') @ '': '' @ name_list ns"

definition unexpected_message :: "pyfunc \<Rightarrow> string \<Rightarrow> string" where
  "unexpected_message f k = func_name f @ ''() got an unexpected keyword argument '' @ quoted k"

fun type_name :: "pyval \<Rightarrow> string" where
  "type_name PyNone = ''NoneType''"
| "type_name (PyBool b) = ''bool''"
| "type_name (PyInt i) = ''int''"
| "type_name (PyStr s) = ''str''"
| "type_name (PyList l) = ''list''"
| "type_name (PyDict d) = ''dict''"
| "type_name (PyObject t) = t"

text \<open>This message names the function with its module, \<open>app.tools\<close>.\<close>

definition not_mapping_message :: "pyfunc \<Rightarrow> pyval \<Rightarrow> string" where
  "not_mapping_message f v =
     ''app.tools.'' @ func_name f @ ''() argument after ** must be a mapping, not '' @ type_name v"

text \<open>
  \<open>func(**args)\<close>. Python binds the keywords first: a keyword that names no parameter
  raises \<open>TypeError\<close> (unexpected keyword argument) before the required parameters are
  checked; then a required parameter without a value raises \<open>TypeError\<close> (missing ...
  required positional argument); then the body runs.
\<close>

definition call_kwargs :: "'w env \<Rightarrow> pyfunc \<Rightarrow> pyval \<Rightarrow> 'w \<Rightarrow> (exn + pyval) \<times> 'w" where
  "call_kwargs E f args w =
     (case args of
        PyDict kw \<Rightarrow>
          (case unexpected_keywords f kw of
             k # ks \<Rightarrow> (Inl (Exn TypeError (unexpected_message f k)), w)
           | [] \<Rightarrow>
               (case missing_params f kw of
                  m # ms \<Rightarrow> (Inl (Exn TypeError (missing_message f (m # ms))), w)
                | [] \<Rightarrow> tool_body E (func_name f) kw w))
      | _ \<Rightarrow> (Inl (Exn TypeError (not_mapping_message f args)), w))"

subsection \<open>run_tool\<close>

definition unknown_tool :: "string \<Rightarrow> pyval" where
  "unknown_tool name = PyDict [(''error'', PyStr ''UNKNOWN_TOOL''), (''tool'', PyStr name)]"

definition missing_required_argument :: "string \<Rightarrow> string \<Rightarrow> pyval" where
  "missing_required_argument error_msg name =
     PyDict [(''error'', PyStr ''MISSING_REQUIRED_ARGUMENT''), (''message'', PyStr error_msg),
             (''tool'', PyStr name)]"

definition run_tool :: "'w env \<Rightarrow> string \<Rightarrow> pyval \<Rightarrow> 'w \<Rightarrow> (exn + pyval) \<times> 'w" where
  "run_tool E name args w =
     (case map_of tool_map name of
        None \<Rightarrow> (Inr (unknown_tool name), w)
      | Some func \<Rightarrow>
          (let w1 = (case increment_tool_stat E name w of
                       (Inl e, w') \<Rightarrow> w'
                     | (Inr u, w') \<Rightarrow> w')
           in case call_kwargs E func args w1 of
                (Inl (Exn TypeError error_msg), w2) \<Rightarrow>
                  if sublist ''missing'' error_msg \<and> sublist ''required'' error_msg
                  then (Inr (missing_required_argument error_msg name), w2)
                  else (Inl (Exn TypeError error_msg), w2)
              | (Inl e, w2) \<Rightarrow> (Inl e, w2)
              | (Inr result, w2) \<Rightarrow> (Inr result, w2)))"

section \<open>The agents' event stream\<close>

text \<open>
  The events both adapters yield, with the fields in the order of the source's dicts:
  \<open>text_delta(delta)\<close>, \<open>tool_args_delta(item_id, delta)\<close>,
  \<open>tool_call(name, call_id, arguments)\<close>, \<open>tool_result(name, call_id, result)\<close>,
  \<open>done\<close>, \<open>error(message)\<close>.
\<close>

datatype event =
    Text_delta string
  | Tool_args_delta string string
  | Tool_call string string pyval
  | Tool_result string string pyval
  | Done
  | Error string

fun is_terminal :: "event \<Rightarrow> bool" where
  "is_terminal Done = True"
| "is_terminal (Error m) = True"
| "is_terminal e = False"

fun is_text_delta :: "event \<Rightarrow> bool" where
  "is_text_delta (Text_delta t) = True"
| "is_text_delta e = False"

fun is_tool_args_delta :: "event \<Rightarrow> bool" where
  "is_tool_args_delta (Tool_args_delta i d) = True"
| "is_tool_args_delta e = False"

fun is_delta :: "event \<Rightarrow> bool" where
  "is_delta (Text_delta t) = True"
| "is_delta (Tool_args_delta i d) = True"
| "is_delta e = False"

text \<open>
  What a streaming provider call delivers: the chunks it yields and, if the call or the
  iteration raises, the exception that follows them. The provider is a parameter: a
  function of the number of the call within the invocation and of the conversation sent.
\<close>

record 'c response =
  chunks :: "'c list"
  failure :: "exn option"

text \<open>Truthiness of an optional string: \<open>None\<close> and \<open>""\<close> are false.\<close>

fun truthy :: "string option \<Rightarrow> string option" where
  "truthy None = None"
| "truthy (Some s) = (if s = [] then None else Some s)"

definition limit_message :: "int \<Rightarrow> string" where
  "limit_message max_tool_rounds =
     ''Maximum tool call rounds ('' @ str_int max_tool_rounds
       @ '') reached. This likely indicates an infinite loop. Please try rephrasing your request or contact support.''"

section \<open>agents/openai_agent.py\<close>

subsection \<open>Provider chunks and the accumulated assistant message\<close>

record function_delta =
  fd_name :: "string option"
  fd_arguments :: "string option"

record tool_call_delta =
  tcd_index :: "int option"
  tcd_id :: "string option"
  tcd_function :: "function_delta option"

record choice_delta =
  cd_content :: "string option"
  cd_tool_calls :: "tool_call_delta list option"

text \<open>A chunk is the delta of its first choice; \<open>None\<close> is a chunk without choices.\<close>

type_synonym chunk = "choice_delta option"

record tool_call_acc =
  tc_id :: string
  tc_name :: string
  tc_arguments :: string

record assistant_message =
  am_content :: string
  am_tool_calls :: "tool_call_acc list"

datatype chat_message =
    Message string string
  | Assistant assistant_message
  | Tool_message string string

record openai_client =
  system_instructions :: string
  create :: "nat \<Rightarrow> chat_message list \<Rightarrow> chunk response"

definition blank_call :: tool_call_acc where
  "blank_call = \<lparr>tc_id = [], tc_name = [], tc_arguments = []\<rparr>"

definition blank_assistant :: assistant_message where
  "blank_assistant = \<lparr>am_content = [], am_tool_calls = []\<rparr>"

subsection \<open>Python list indexing\<close>

definition py_index :: "nat \<Rightarrow> int \<Rightarrow> nat option" where
  "py_index n i =
     (if 0 \<le> i \<and> i < int n then Some (nat i)
      else if i < 0 \<and> - int n \<le> i then Some (nat (int n + i))
      else None)"

definition index_error :: exn where
  "index_error = Exn IndexError ''list index out of range''"

text \<open>\<open>tool_calls[idx][field] = ...\<close>: the element is looked up first.\<close>

definition update_call ::
  "tool_call_acc list \<Rightarrow> int \<Rightarrow> (tool_call_acc \<Rightarrow> tool_call_acc) \<Rightarrow> exn + tool_call_acc list" where
  "update_call tcs idx f =
     (case py_index (length tcs) idx of
        None \<Rightarrow> Inl index_error
      | Some p \<Rightarrow> Inr (tcs[p := f (tcs ! p)]))"

text \<open>\<open>while len(tool_calls) <= idx: tool_calls.append(blank)\<close>\<close>

definition pad_calls :: "tool_call_acc list \<Rightarrow> int \<Rightarrow> tool_call_acc list" where
  "pad_calls tcs idx = tcs @ replicate (nat (idx + 1 - int (length tcs))) blank_call"

subsection \<open>Consuming the stream\<close>

definition on_tool_call_delta ::
  "tool_call_delta \<Rightarrow> tool_call_acc list \<Rightarrow> exn + (event list \<times> tool_call_acc list)" where
  "on_tool_call_delta d tcs =
     (case tcd_index d of
        None \<Rightarrow> Inr ([], tcs)
      | Some idx \<Rightarrow>
          (case (case truthy (tcd_id d) of
                   None \<Rightarrow> Inr (pad_calls tcs idx)
                 | Some i \<Rightarrow> update_call (pad_calls tcs idx) idx (\<lambda>c. c\<lparr>tc_id := i\<rparr>)) of
             Inl e \<Rightarrow> Inl e
           | Inr tcs2 \<Rightarrow>
               (case tcd_function d of
                  None \<Rightarrow> Inr ([], tcs2)
                | Some fn \<Rightarrow>
                    (case (case truthy (fd_name fn) of
                             None \<Rightarrow> Inr tcs2
                           | Some n \<Rightarrow> update_call tcs2 idx (\<lambda>c. c\<lparr>tc_name := n\<rparr>)) of
                       Inl e \<Rightarrow> Inl e
                     | Inr tcs3 \<Rightarrow>
                         (case truthy (fd_arguments fn) of
                            None \<Rightarrow> Inr ([], tcs3)
                          | Some a \<Rightarrow>
                              (case update_call tcs3 idx
                                      (\<lambda>c. c\<lparr>tc_arguments := tc_arguments c @ a\<rparr>) of
                                 Inl e \<Rightarrow> Inl e
                               | Inr tcs4 \<Rightarrow>
                                   (case py_index (length tcs4) idx of
                                      None \<Rightarrow> Inl index_error
                                    | Some p \<Rightarrow>
                                        Inr ([Tool_args_delta (tc_id (tcs4 ! p)) a], tcs4))))))))"

fun on_tool_call_deltas ::
  "tool_call_delta list \<Rightarrow> tool_call_acc list \<Rightarrow> event list \<times> (exn + tool_call_acc list)" where
  "on_tool_call_deltas [] tcs = ([], Inr tcs)"
| "on_tool_call_deltas (d # ds) tcs =
     (case on_tool_call_delta d tcs of
        Inl e \<Rightarrow> ([], Inl e)
      | Inr (evs, tcs') \<Rightarrow>
          (case on_tool_call_deltas ds tcs' of (evs', r) \<Rightarrow> (evs @ evs', r)))"

definition on_content :: "string option \<Rightarrow> assistant_message \<Rightarrow> event list \<times> assistant_message" where
  "on_content content am =
     (case truthy content of
        None \<Rightarrow> ([], am)
      | Some t \<Rightarrow> ([Text_delta t], am\<lparr>am_content := am_content am @ t\<rparr>))"

definition on_chunk :: "chunk \<Rightarrow> assistant_message \<Rightarrow> event list \<times> (exn + assistant_message)" where
  "on_chunk c am =
     (case c of
        None \<Rightarrow> ([], Inr am)
      | Some delta \<Rightarrow>
          (case on_content (cd_content delta) am of
             (evs1, am1) \<Rightarrow>
               (case cd_tool_calls delta of
                  None \<Rightarrow> (evs1, Inr am1)
                | Some ds \<Rightarrow>
                    (case on_tool_call_deltas ds (am_tool_calls am1) of
                       (evs2, Inl e) \<Rightarrow> (evs1 @ evs2, Inl e)
                     | (evs2, Inr tcs) \<Rightarrow> (evs1 @ evs2, Inr (am1\<lparr>am_tool_calls := tcs\<rparr>))))))"

fun consume :: "chunk list \<Rightarrow> assistant_message \<Rightarrow> event list \<times> (exn + assistant_message)" where
  "consume [] am = ([], Inr am)"
| "consume (c # cs) am =
     (case on_chunk c am of
        (evs, Inl e) \<Rightarrow> (evs, Inl e)
      | (evs, Inr am') \<Rightarrow> (case consume cs am' of (evs', r) \<Rightarrow> (evs @ evs', r)))"

subsection \<open>Executing the finalized tool calls\<close>

text \<open>\<open>json.loads\<close> guarded by \<open>except json.JSONDecodeError: args = {}\<close>.\<close>

definition parse_arguments :: "'w env \<Rightarrow> string \<Rightarrow> exn + pyval" where
  "parse_arguments E args_str =
     (case json_loads E args_str of
        Inl (Exn JSONDecodeError m) \<Rightarrow> Inr (PyDict [])
      | Inl e \<Rightarrow> Inl e
      | Inr v \<Rightarrow> Inr v)"

fun execute_tool_calls ::
  "'w env \<Rightarrow> tool_call_acc list \<Rightarrow> chat_message list \<Rightarrow> 'w
     \<Rightarrow> (event list \<times> (exn + chat_message list)) \<times> 'w" where
  "execute_tool_calls E [] chat w = (([], Inr chat), w)"
| "execute_tool_calls E (tc # tcs) chat w =
     (case parse_arguments E (tc_arguments tc) of
        Inl e \<Rightarrow> (([], Inl e), w)
      | Inr args \<Rightarrow>
          (case run_tool E (tc_name tc) args w of
             (Inl e, w1) \<Rightarrow> (([Tool_call (tc_name tc) (tc_id tc) args], Inl e), w1)
           | (Inr result, w1) \<Rightarrow>
               (case json_dumps E result of
                  Inl e \<Rightarrow>
                    (([Tool_call (tc_name tc) (tc_id tc) args,
                       Tool_result (tc_name tc) (tc_id tc) result], Inl e), w1)
                | Inr content \<Rightarrow>
                    (case execute_tool_calls E tcs (chat @ [Tool_message (tc_id tc) content]) w1 of
                       ((evs, r), w2) \<Rightarrow>
                         (([Tool_call (tc_name tc) (tc_id tc) args,
                            Tool_result (tc_name tc) (tc_id tc) result] @ evs, r), w2)))))"

subsection \<open>One round, the round loop, stream\<close>

text \<open>
  One pass of the \<open>for\<close> body. The result is the events the round yields, and the
  conversation for the next round, or \<open>None\<close> when the round returned (after \<open>done\<close> or
  after the \<open>error\<close> of the \<open>except Exception\<close> handler).
\<close>

definition openai_round ::
  "'w env \<Rightarrow> openai_client \<Rightarrow> nat \<Rightarrow> chat_message list \<Rightarrow> 'w
     \<Rightarrow> (event list \<times> chat_message list option) \<times> 'w" where
  "openai_round E client round_idx chat w =
     (let resp = create client round_idx (Message ''system'' (system_instructions client) # chat)
      in case consume (chunks resp) blank_assistant of
           (evs, Inl e) \<Rightarrow> ((evs @ [Error (str_exn e)], None), w)
         | (evs, Inr am) \<Rightarrow>
             (case failure resp of
                Some e \<Rightarrow> ((evs @ [Error (str_exn e)], None), w)
              | None \<Rightarrow>
                  if am_tool_calls am \<noteq> [] then
                    (case execute_tool_calls E (am_tool_calls am) (chat @ [Assistant am]) w of
                       ((evs2, Inl e), w') \<Rightarrow> ((evs @ evs2 @ [Error (str_exn e)], None), w')
                     | ((evs2, Inr chat'), w') \<Rightarrow> ((evs @ evs2, Some chat'), w'))
                  else ((evs @ [Done], None), w)))"

text \<open>
  \<open>for _round_idx in range(max_tool_rounds)\<close>, with the rounds still allowed as the
  first counter. The result lists the events of each round performed, and tells whether
  the loop was left by \<open>return\<close>.
\<close>

fun openai_rounds ::
  "'w env \<Rightarrow> openai_client \<Rightarrow> nat \<Rightarrow> nat \<Rightarrow> chat_message list \<Rightarrow> 'w
     \<Rightarrow> (event list list \<times> bool) \<times> 'w" where
  "openai_rounds E client 0 round_idx chat w = (([], False), w)"
| "openai_rounds E client (Suc k) round_idx chat w =
     (case openai_round E client round_idx chat w of
        ((evs, None), w') \<Rightarrow> (([evs], True), w')
      | ((evs, Some chat'), w') \<Rightarrow>
          (case openai_rounds E client k (Suc round_idx) chat' w' of
             ((rs, returned), w'') \<Rightarrow> ((evs # rs, returned), w'')))"

definition key_error :: "string \<Rightarrow> exn" where
  "key_error k = Exn KeyError (quoted k)"

text \<open>
  A message of the caller is a dict from strings to strings.
  \<open>[{"role": m["role"], "content": m["content"]} for m in messages]\<close> raises
  \<open>KeyError\<close> at the first message that lacks one of the two keys.
\<close>

fun chat_messages_of :: "(string \<times> string) list list \<Rightarrow> exn + chat_message list" where
  "chat_messages_of [] = Inr []"
| "chat_messages_of (m # ms) =
     (case map_of m ''role'' of
        None \<Rightarrow> Inl (key_error ''role'')
      | Some r \<Rightarrow>
          (case map_of m ''content'' of
             None \<Rightarrow> Inl (key_error ''content'')
           | Some c \<Rightarrow>
               (case chat_messages_of ms of
                  Inl e \<Rightarrow> Inl e
                | Inr chat \<Rightarrow> Inr (Message r c # chat))))"

text \<open>
  The generator, run to its end: \<open>Inl e\<close> when it raises \<open>e\<close> (only the list
  comprehension before the loop can, before any event), otherwise the events of the
  rounds performed; \<open>openai_stream\<close> is the whole event sequence, with the \<open>error\<close> that
  follows the loop when no round returned.
\<close>

definition openai_stream_rounds ::
  "'w env \<Rightarrow> openai_client \<Rightarrow> (string \<times> string) list list \<Rightarrow> int \<Rightarrow> 'w
     \<Rightarrow> (exn + (event list list \<times> bool)) \<times> 'w" where
  "openai_stream_rounds E client messages max_tool_rounds w =
     (case chat_messages_of messages of
        Inl e \<Rightarrow> (Inl e, w)
      | Inr chat \<Rightarrow>
          (case openai_rounds E client (nat max_tool_rounds) 0 chat w of
             (r, w') \<Rightarrow> (Inr r, w')))"

definition stream_events :: "int \<Rightarrow> event list list \<times> bool \<Rightarrow> event list" where
  "stream_events max_tool_rounds r =
     (case r of
        (rs, returned) \<Rightarrow>
          concat rs @ (if returned then [] else [Error (limit_message max_tool_rounds)]))"

definition openai_stream ::
  "'w env \<Rightarrow> openai_client \<Rightarrow> (string \<times> string) list list \<Rightarrow> int \<Rightarrow> 'w
     \<Rightarrow> (exn + event list) \<times> 'w" where
  "openai_stream E client messages max_tool_rounds w =
     (case openai_stream_rounds E client messages max_tool_rounds w of
        (Inl e, w') \<Rightarrow> (Inl e, w')
      | (Inr r, w') \<Rightarrow> (Inr (stream_events max_tool_rounds r), w'))"

section \<open>agents/gemini_agent.py\<close>

subsection \<open>Provider chunks and the round's state\<close>

text \<open>
  \<open>function_call.args\<close>: absent (\<open>None\<close>), a mapping that \<open>dict(...)\<close> converts, or a
  value on which \<open>dict(...)\<close> raises. Each \<open>getattr(x, attr, None)\<close> that the source
  tests for truth is an option here: a part is its function call, a content its parts,
  a candidate its content.
\<close>

datatype raw_args = Args_none | Args_mapping "(string \<times> pyval) list" | Args_invalid

record function_call =
  fc_name :: "string option"
  fc_args :: raw_args

type_synonym part = "function_call option"

type_synonym content = "part list option"

type_synonym candidate = "content option"

text \<open>
  \<open>chunk.text\<close> is a property of the SDK's response object, computed from the parts of the
  chunk's first candidate, and it raises \<open>ValueError\<close> when a part is not text, as on a chunk
  that carries a function call. \<open>getattr(chunk, "text", None)\<close> substitutes its default for
  an \<open>AttributeError\<close> only, so reading the text has three outcomes: \<open>Inl e\<close>, the property
  raises \<open>e\<close>; \<open>Inr None\<close>, there is no such attribute or it is \<open>None\<close>; \<open>Inr (Some s)\<close>,
  the text \<open>s\<close>.
\<close>

record gemini_chunk =
  gc_text :: "exn + string option"
  gc_candidates :: "candidate list option"

record pending_call =
  pc_id :: string
  pc_name :: string
  pc_args :: "(string \<times> pyval) list"

record gemini_state =
  assistant_text :: string
  pending_calls :: "pending_call list"

datatype gemini_content =
    Text_content string string
  | Function_response string pyval

type_synonym gemini_model = "nat \<Rightarrow> gemini_content list \<Rightarrow> gemini_chunk response"

definition blank_state :: gemini_state where
  "blank_state = \<lparr>assistant_text = [], pending_calls = []\<rparr>"

subsection \<open>_convert_messages_to_contents\<close>

definition convert_message :: "(string \<times> string) list \<Rightarrow> gemini_content" where
  "convert_message m =
     (let role = (case map_of m ''role'' of None \<Rightarrow> ''user'' | Some r \<Rightarrow> r);
          role' = (if role = ''assistant'' then ''model''
                   else if role \<noteq> ''user'' then ''user'' else role)
      in Text_content role' (case map_of m ''content'' of None \<Rightarrow> [] | Some c \<Rightarrow> c))"

definition convert_messages_to_contents :: "(string \<times> string) list list \<Rightarrow> gemini_content list" where
  "convert_messages_to_contents messages = map convert_message messages"

subsection \<open>Consuming the stream\<close>

definition dict_of_args :: "raw_args \<Rightarrow> (string \<times> pyval) list" where
  "dict_of_args raw =
     (case raw of Args_none \<Rightarrow> [] | Args_mapping kw \<Rightarrow> kw | Args_invalid \<Rightarrow> [])"

definition gemini_call_id :: "string \<Rightarrow> nat \<Rightarrow> nat \<Rightarrow> string" where
  "gemini_call_id name n round_idx =
     ''gemini-'' @ name @ ''-'' @ str_nat n @ ''-'' @ str_nat round_idx"

definition on_part ::
  "'w env \<Rightarrow> nat \<Rightarrow> part \<Rightarrow> pending_call list \<Rightarrow> exn + (event list \<times> pending_call list)" where
  "on_part E round_idx p pending =
     (case p of
        None \<Rightarrow> Inr ([], pending)
      | Some fc \<Rightarrow>
          (case truthy (fc_name fc) of
             None \<Rightarrow> Inr ([], pending)
           | Some name \<Rightarrow>
               (let args = dict_of_args (fc_args fc);
                    call_id = gemini_call_id name (length pending) round_idx
                in case json_dumps E (PyDict args) of
                     Inl e \<Rightarrow> Inl e
                   | Inr text \<Rightarrow>
                       Inr ([Tool_args_delta call_id text],
                            pending @ [\<lparr>pc_id = call_id, pc_name = name, pc_args = args\<rparr>]))))"

fun on_parts ::
  "'w env \<Rightarrow> nat \<Rightarrow> part list \<Rightarrow> pending_call list \<Rightarrow> event list \<times> (exn + pending_call list)" where
  "on_parts E round_idx [] pending = ([], Inr pending)"
| "on_parts E round_idx (p # ps) pending =
     (case on_part E round_idx p pending of
        Inl e \<Rightarrow> ([], Inl e)
      | Inr (evs, pending') \<Rightarrow>
          (case on_parts E round_idx ps pending' of (evs', r) \<Rightarrow> (evs @ evs', r)))"

definition candidate_parts :: "candidate \<Rightarrow> part list" where
  "candidate_parts cand =
     (case cand of
        None \<Rightarrow> []
      | Some c \<Rightarrow> (case c of None \<Rightarrow> [] | Some ps \<Rightarrow> ps))"

fun on_candidates ::
  "'w env \<Rightarrow> nat \<Rightarrow> candidate list \<Rightarrow> pending_call list
     \<Rightarrow> event list \<times> (exn + pending_call list)" where
  "on_candidates E round_idx [] pending = ([], Inr pending)"
| "on_candidates E round_idx (cand # cands) pending =
     (case on_parts E round_idx (candidate_parts cand) pending of
        (evs, Inl e) \<Rightarrow> (evs, Inl e)
      | (evs, Inr pending') \<Rightarrow>
          (case on_candidates E round_idx cands pending' of (evs', r) \<Rightarrow> (evs @ evs', r)))"

text \<open>
  Lines 122 to 125: the text of the chunk is read first. An exception of the property
  leaves the loop body before anything of the chunk is yielded and reaches the handler
  of the round.
\<close>

definition on_text ::
  "exn + string option \<Rightarrow> gemini_state \<Rightarrow> exn + (event list \<times> gemini_state)" where
  "on_text t st =
     (case t of
        Inl e \<Rightarrow> Inl e
      | Inr text_delta \<Rightarrow>
          (case truthy text_delta of
             None \<Rightarrow> Inr ([], st)
           | Some d \<Rightarrow> Inr ([Text_delta d], st\<lparr>assistant_text := assistant_text st @ d\<rparr>)))"

definition on_gemini_chunk ::
  "'w env \<Rightarrow> nat \<Rightarrow> gemini_chunk \<Rightarrow> gemini_state \<Rightarrow> event list \<times> (exn + gemini_state)" where
  "on_gemini_chunk E round_idx c st =
     (case on_text (gc_text c) st of
        Inl e \<Rightarrow> ([], Inl e)
      | Inr (evs1, st1) \<Rightarrow>
          (case on_candidates E round_idx
                  (case gc_candidates c of None \<Rightarrow> [] | Some cands \<Rightarrow> cands)
                  (pending_calls st1) of
             (evs2, Inl e) \<Rightarrow> (evs1 @ evs2, Inl e)
           | (evs2, Inr pending) \<Rightarrow> (evs1 @ evs2, Inr (st1\<lparr>pending_calls := pending\<rparr>))))"

fun gemini_consume ::
  "'w env \<Rightarrow> nat \<Rightarrow> gemini_chunk list \<Rightarrow> gemini_state \<Rightarrow> event list \<times> (exn + gemini_state)" where
  "gemini_consume E round_idx [] st = ([], Inr st)"
| "gemini_consume E round_idx (c # cs) st =
     (case on_gemini_chunk E round_idx c st of
        (evs, Inl e) \<Rightarrow> (evs, Inl e)
      | (evs, Inr st') \<Rightarrow>
          (case gemini_consume E round_idx cs st' of (evs', r) \<Rightarrow> (evs @ evs', r)))"

subsection \<open>Executing the pending calls\<close>

fun gemini_execute ::
  "'w env \<Rightarrow> pending_call list \<Rightarrow> gemini_content list \<Rightarrow> 'w
     \<Rightarrow> (event list \<times> (exn + gemini_content list)) \<times> 'w" where
  "gemini_execute E [] contents w = (([], Inr contents), w)"
| "gemini_execute E (call # calls) contents w =
     (case run_tool E (pc_name call) (PyDict (pc_args call)) w of
        (Inl e, w1) \<Rightarrow>
          (([Tool_call (pc_name call) (pc_id call) (PyDict (pc_args call))], Inl e), w1)
      | (Inr result, w1) \<Rightarrow>
          (case gemini_execute E calls (contents @ [Function_response (pc_name call) result]) w1 of
             ((evs, r), w2) \<Rightarrow>
               (([Tool_call (pc_name call) (pc_id call) (PyDict (pc_args call)),
                  Tool_result (pc_name call) (pc_id call) result] @ evs, r), w2)))"

subsection \<open>One round, the round loop, stream\<close>

definition gemini_round ::
  "'w env \<Rightarrow> gemini_model \<Rightarrow> nat \<Rightarrow> gemini_content list \<Rightarrow> 'w
     \<Rightarrow> (event list \<times> gemini_content list option) \<times> 'w" where
  "gemini_round E model round_idx contents w =
     (let resp = model round_idx contents
      in case gemini_consume E round_idx (chunks resp) blank_state of
           (evs, Inl e) \<Rightarrow> ((evs @ [Error (str_exn e)], None), w)
         | (evs, Inr st) \<Rightarrow>
             (case failure resp of
                Some e \<Rightarrow> ((evs @ [Error (str_exn e)], None), w)
              | None \<Rightarrow>
                  if pending_calls st \<noteq> [] then
                    (case gemini_execute E (pending_calls st)
                            (if assistant_text st \<noteq> []
                             then contents @ [Text_content ''model'' (assistant_text st)]
                             else contents) w of
                       ((evs2, Inl e), w') \<Rightarrow> ((evs @ evs2 @ [Error (str_exn e)], None), w')
                     | ((evs2, Inr contents'), w') \<Rightarrow> ((evs @ evs2, Some contents'), w'))
                  else ((evs @ [Done], None), w)))"

fun gemini_rounds ::
  "'w env \<Rightarrow> gemini_model \<Rightarrow> nat \<Rightarrow> nat \<Rightarrow> gemini_content list \<Rightarrow> 'w
     \<Rightarrow> (event list list \<times> bool) \<times> 'w" where
  "gemini_rounds E model 0 round_idx contents w = (([], False), w)"
| "gemini_rounds E model (Suc k) round_idx contents w =
     (case gemini_round E model round_idx contents w of
        ((evs, None), w') \<Rightarrow> (([evs], True), w')
      | ((evs, Some contents'), w') \<Rightarrow>
          (case gemini_rounds E model k (Suc round_idx) contents' w' of
             ((rs, returned), w'') \<Rightarrow> ((evs # rs, returned), w'')))"

definition gemini_stream_rounds ::
  "'w env \<Rightarrow> gemini_model \<Rightarrow> (string \<times> string) list list \<Rightarrow> int \<Rightarrow> 'w
     \<Rightarrow> (event list list \<times> bool) \<times> 'w" where
  "gemini_stream_rounds E model messages max_tool_rounds w =
     gemini_rounds E model (nat max_tool_rounds) 0 (convert_messages_to_contents messages) w"

definition gemini_stream ::
  "'w env \<Rightarrow> gemini_model \<Rightarrow> (string \<times> string) list list \<Rightarrow> int \<Rightarrow> 'w \<Rightarrow> event list \<times> 'w" where
  "gemini_stream E model messages max_tool_rounds w =
     (case gemini_stream_rounds E model messages max_tool_rounds w of
        (r, w') \<Rightarrow> (stream_events max_tool_rounds r, w'))"

section \<open>Shapes of event sequences\<close>

definition terminated_once :: "event list \<Rightarrow> bool" where
  "terminated_once evs = (evs \<noteq> [] \<and> is_terminal (last evs) \<and> length (filter is_terminal evs) = 1)"

definition open_round :: "event list \<Rightarrow> bool" where
  "open_round evs = list_all (\<lambda>e. \<not> is_terminal e) evs"

definition closed_round :: "event list \<Rightarrow> bool" where
  "closed_round evs = (evs \<noteq> [] \<and> is_terminal (last evs) \<and> open_round (butlast evs))"

text \<open>The trace of a loop: every round but the last is open; the last is closed exactly
  when the loop was left by return.\<close>

definition well_formed_trace :: "nat \<Rightarrow> event list list \<times> bool \<Rightarrow> bool" where
  "well_formed_trace k t =
     (case t of (rs, returned) \<Rightarrow>
        length rs \<le> k
        \<and> (if returned then rs \<noteq> [] \<and> closed_round (last rs) \<and> list_all open_round (butlast rs)
            else length rs = k \<and> list_all open_round rs))"







section \<open>What the caller and the provider do\<close>

definition has_role_and_content :: "(string \<times> string) list \<Rightarrow> bool" where
  "has_role_and_content m = (map_of m ''role'' \<noteq> None \<and> map_of m ''content'' \<noteq> None)"

text \<open>
  The \<open>for\<close> loop of both adapters, over the round function: used to state what the two
  loops share.
\<close>

fun rounds_loop ::
  "(nat \<Rightarrow> 'c \<Rightarrow> 'w \<Rightarrow> (event list \<times> 'c option) \<times> 'w) \<Rightarrow> nat \<Rightarrow> nat \<Rightarrow> 'c \<Rightarrow> 'w
     \<Rightarrow> (event list list \<times> bool) \<times> 'w" where
  "rounds_loop step 0 round_idx c w = (([], False), w)"
| "rounds_loop step (Suc k) round_idx c w =
     (case step round_idx c w of
        ((evs, None), w') \<Rightarrow> (([evs], True), w')
      | ((evs, Some c'), w') \<Rightarrow>
          (case rounds_loop step k (Suc round_idx) c' w' of
             ((rs, returned), w'') \<Rightarrow> ((evs # rs, returned), w'')))"

text \<open>Round \<open>i\<close> goes on to the next round, whatever the conversation and the store.\<close>

definition continues :: "(nat \<Rightarrow> 'c \<Rightarrow> 'w \<Rightarrow> (event list \<times> 'c option) \<times> 'w) \<Rightarrow> nat \<Rightarrow> bool" where
  "continues step i = (\<forall>c w. \<exists>evs c' w'. step i c w = ((evs, Some c'), w'))"

text \<open>
  The response to call \<open>i\<close> streams to its end, yields \<open>evs\<close> and finalizes no tool call.
\<close>

definition openai_tool_free :: "openai_client \<Rightarrow> nat \<Rightarrow> chat_message list \<Rightarrow> event list \<Rightarrow> bool" where
  "openai_tool_free client i chat evs =
     (let resp = create client i (Message ''system'' (system_instructions client) # chat)
      in failure resp = None
         \<and> (\<exists>am. consume (chunks resp) blank_assistant = (evs, Inr am) \<and> am_tool_calls am = []))"

definition gemini_tool_free ::
  "'w env \<Rightarrow> gemini_model \<Rightarrow> nat \<Rightarrow> gemini_content list \<Rightarrow> event list \<Rightarrow> bool" where
  "gemini_tool_free E model i contents evs =
     (let resp = model i contents
      in failure resp = None
         \<and> (\<exists>st. gemini_consume E i (chunks resp) blank_state = (evs, Inr st) \<and> pending_calls st = []))"













section \<open>Sample environments and providers\<close>

text \<open>
  A data store that records the statements committed, one prescription \<open>RX-1\<close> of user
  \<open>1003\<close>, tool bodies that return a fixed payload, and a \<open>json\<close> module that parses
  \<open>{}\<close> only.
\<close>

type_synonym store = "(string \<times> pyval list) list"

definition sample_env :: "store env" where
  "sample_env =
     \<lparr>exec_sql = (\<lambda>sql params w. Inr (w @ [(sql, params)])),
      query_one = (\<lambda>sql params w.
         if params = [PyStr ''RX-1'']
         then Inr (Some \<lparr>rx_user_id = ''1003'', rx_refills_remaining = 2, rx_expires_at = ''2030-01-01''\<rparr>)
         else Inr None),
      utc_today_iso = (\<lambda>w. ''2026-11-03''),
      utc_timestamp_ms = (\<lambda>w. ''20261103120000000''),
      utc_now_iso = (\<lambda>w. ''2026-11-03T12:00:00''),
      tool_body = (\<lambda>name kw w. (Inr (PyDict [(''count'', PyInt 0)]), w)),
      json_loads = (\<lambda>s. if s = ''{}'' then Inr (PyDict []) else Inl (Exn JSONDecodeError ''Expecting value'')),
      json_dumps = (\<lambda>v. Inr ''{}'')\<rparr>"

definition failing_stats_env :: "store env" where
  "failing_stats_env =
     sample_env\<lparr>exec_sql := (\<lambda>sql params w.
        if sql = increment_sql then Inl (Exn OtherException ''Database connection failed: timeout'')
        else Inr (w @ [(sql, params)]))\<rparr>"

definition counted :: "string \<Rightarrow> string \<times> pyval list" where
  "counted name = (increment_sql, [PyStr name])"


text \<open>Scripted providers: each lets the responses depend on the number of the call only.\<close>

definition call_chunk :: "string option \<Rightarrow> string option \<Rightarrow> string option \<Rightarrow> chunk" where
  "call_chunk cid name args =
     Some \<lparr>cd_content = None,
           cd_tool_calls = Some [\<lparr>tcd_index = Some 0, tcd_id = cid,
                                  tcd_function = Some \<lparr>fd_name = name, fd_arguments = args\<rparr>\<rparr>]\<rparr>"

definition text_chunk :: "string \<Rightarrow> chunk" where
  "text_chunk t = Some \<lparr>cd_content = Some t, cd_tool_calls = None\<rparr>"

definition tool_response :: "chunk response" where
  "tool_response =
     \<lparr>chunks = [call_chunk (Some ''call_1'') (Some ''list_stores'') (Some ''{}'')], failure = None\<rparr>"

definition text_response :: "chunk response" where
  "text_response = \<lparr>chunks = [text_chunk ''Two stores.''], failure = None\<rparr>"




definition scripted_client :: "(nat \<Rightarrow> chunk response) \<Rightarrow> openai_client" where
  "scripted_client script =
     \<lparr>system_instructions = ''You are a pharmacy assistant.'', create = (\<lambda>i chat. script i)\<rparr>"


definition looping_client :: openai_client where
  "looping_client = scripted_client (\<lambda>i. tool_response)"


definition text_client :: openai_client where
  "text_client = scripted_client (\<lambda>i. text_response)"


text \<open>
  The chunks of the Gemini SDK. A chunk that requests a tool has one candidate whose
  content has one part, a function call with an empty argument mapping; the part is not
  text, so the chunk's \<open>text\<close> property raises the SDK's \<open>ValueError\<close>. A text chunk has one
  candidate whose only part is text: the part's function call is empty (false), and the
  property returns the text.
\<close>

definition text_accessor_error :: exn where
  "text_accessor_error = Exn ValueError ''Could not convert `part.function_call` to text.''"

definition gemini_call_chunk :: "string \<Rightarrow> gemini_chunk" where
  "gemini_call_chunk name =
     \<lparr>gc_text = Inl text_accessor_error,
      gc_candidates = Some [Some (Some [Some \<lparr>fc_name = Some name, fc_args = Args_mapping []\<rparr>])]\<rparr>"

definition gemini_text_chunk :: "string \<Rightarrow> gemini_chunk" where
  "gemini_text_chunk t = \<lparr>gc_text = Inr (Some t), gc_candidates = Some [Some (Some [None])]\<rparr>"

definition gemini_tool_response :: "gemini_chunk response" where
  "gemini_tool_response = \<lparr>chunks = [gemini_call_chunk ''list_stores''], failure = None\<rparr>"

definition gemini_text_response :: "gemini_chunk response" where
  "gemini_text_response = \<lparr>chunks = [gemini_text_chunk ''Two stores.''], failure = None\<rparr>"


definition requesting_model :: gemini_model where
  "requesting_model = (\<lambda>i contents. gemini_tool_response)"


definition text_model :: gemini_model where
  "text_model = (\<lambda>i contents. gemini_text_response)"

definition sample_messages :: "(string \<times> string) list list" where
  "sample_messages = [[(''role'', ''user''), (''content'', ''Which stores are there?'')]]"

definition sample_tool_events :: "event list" where
  "sample_tool_events =
     [Tool_args_delta ''call_1'' ''{}'', Tool_call ''list_stores'' ''call_1'' (PyDict []),
      Tool_result ''list_stores'' ''call_1'' (PyDict [(''count'', PyInt 0)])]"

section \<open>Properties of tools.py\<close>

text \<open>
  C10. Whenever \<open>request_prescription_refill\<close> returns a rejection, the rejection is one
  of \<open>NOT_FOUND\<close>, \<open>UNAUTHORIZED\<close>, \<open>NO_REFILLS\<close>, \<open>EXPIRED\<close> and the data store is the
  one the function was called with: no statement was executed, so the prescriptions and
  the refill requests are unchanged. A returned result that is not a rejection is the
  acceptance, and the store is then the one left by both writes, the insert of the
  refill request followed by the decrement of \<open>refills_remaining\<close>.
\<close>

theorem refill_writes_only_when_accepted:
  assumes "request_prescription_refill E user_id prescription_id w = (Inr r, w')"
  shows "((\<exists>err. r = rejection err) \<longrightarrow>
            w' = w \<and> r \<in> rejection ` {''NOT_FOUND'', ''UNAUTHORIZED'', ''NO_REFILLS'', ''EXPIRED''})
       \<and> ((\<forall>err. r \<noteq> rejection err) \<longrightarrow>
            r = acceptance (refill_request_id (utc_timestamp_ms E w) prescription_id)
            \<and> (\<exists>w1. exec_sql E insert_refill_sql (insert_refill_params E user_id prescription_id w) w = Inr w1
                   \<and> exec_sql E decrement_refills_sql [PyStr prescription_id] w1 = Inr w'))"
  using assms
  by (auto simp: request_prescription_refill_def rejection_def acceptance_def
           split: sum.splits option.splits if_splits)

theorem refill_writes_only_when_accepted_witness:
  "request_prescription_refill sample_env ''1001'' ''RX-1'' [] = (Inr (rejection ''UNAUTHORIZED''), [])
   \<and> ([] :: store) = []
   \<and> rejection ''UNAUTHORIZED'' \<in> rejection ` {''NOT_FOUND'', ''UNAUTHORIZED'', ''NO_REFILLS'', ''EXPIRED''}"
proof -
  have h: "request_prescription_refill sample_env ''1001'' ''RX-1'' [] = (Inr (rejection ''UNAUTHORIZED''), [])"
    by (simp add: request_prescription_refill_def sample_env_def)
  have e: "\<exists>err. rejection ''UNAUTHORIZED'' = rejection err"
    by blast
  have c: "([] :: store) = []
      \<and> rejection ''UNAUTHORIZED'' \<in> rejection ` {''NOT_FOUND'', ''UNAUTHORIZED'', ''NO_REFILLS'', ''EXPIRED''}"
    using refill_writes_only_when_accepted [OF h, THEN conjunct1, THEN mp, OF e] .
  show ?thesis
    by (rule conjI [OF h c])
qed







text \<open>
  C9. For a registered tool, when the \<open>exec_sql\<close> of the usage counter raises,
  \<open>_increment_tool_stat\<close> returns normally and leaves the store as it was; \<open>run_tool\<close>
  then returns exactly what the tool function returns on that store, and anything
  \<open>run_tool\<close> raises is what the tool call itself raised, never the counter's exception.
\<close>

theorem counter_failure_is_swallowed:
  assumes "map_of tool_map name = Some func"
    and "exec_sql E increment_sql [PyStr name] w = Inl e"
  shows "increment_tool_stat E name w = (Inr (), w)
       \<and> (\<forall>result w2. call_kwargs E func args w = (Inr result, w2)
             \<longrightarrow> run_tool E name args w = (Inr result, w2))
       \<and> (\<forall>x w2. run_tool E name args w = (Inl x, w2) \<longrightarrow> call_kwargs E func args w = (Inl x, w2))"
proof -
  have inc: "increment_tool_stat E name w = (Inr (), w)"
    by (simp add: increment_tool_stat_def assms(2))
  have ok: "run_tool E name args w = (Inr result, w2)"
    if "call_kwargs E func args w = (Inr result, w2)" for result w2
    using that by (simp add: run_tool_def assms(1) inc)
  have raised: "call_kwargs E func args w = (Inl x, w2)"
    if "run_tool E name args w = (Inl x, w2)" for x w2
    using that
    by (auto simp: run_tool_def assms(1) inc split: prod.splits sum.splits exn.splits exn_class.splits if_splits)
  from inc ok raised show ?thesis by blast
qed

theorem counter_failure_is_swallowed_witness:
  "map_of tool_map ''list_stores'' = Some \<lparr>func_name = ''list_stores'', func_params = [(''city'', True)]\<rparr>
   \<and> exec_sql failing_stats_env increment_sql [PyStr ''list_stores''] [] =
        Inl (Exn OtherException ''Database connection failed: timeout'')
   \<and> call_kwargs failing_stats_env \<lparr>func_name = ''list_stores'', func_params = [(''city'', True)]\<rparr> (PyDict []) []
        = (Inr (PyDict [(''count'', PyInt 0)]), [])
   \<and> run_tool failing_stats_env ''list_stores'' (PyDict []) [] = (Inr (PyDict [(''count'', PyInt 0)]), [])"
proof -
  let ?f = "\<lparr>func_name = ''list_stores'', func_params = [(''city'', True)]\<rparr>"
  have a: "map_of tool_map ''list_stores'' = Some ?f"
    by (simp add: tool_map_def)
  have b: "exec_sql failing_stats_env increment_sql [PyStr ''list_stores''] [] =
        Inl (Exn OtherException ''Database connection failed: timeout'')"
    by (simp add: failing_stats_env_def sample_env_def)
  have c: "call_kwargs failing_stats_env ?f (PyDict []) [] = (Inr (PyDict [(''count'', PyInt 0)]), [])"
    by (simp add: call_kwargs_def unexpected_keywords_def missing_params_def required_params_def
          failing_stats_env_def sample_env_def)
  from counter_failure_is_swallowed [OF a b, of "PyDict []"] a b c show ?thesis by blast
qed





section \<open>The sample providers, evaluated\<close>

lemma sample_run_tool:
  "run_tool sample_env ''list_stores'' (PyDict []) w =
     (Inr (PyDict [(''count'', PyInt 0)]), w @ [counted ''list_stores''])"
  by (simp add: run_tool_def tool_map_def increment_tool_stat_def call_kwargs_def
        unexpected_keywords_def missing_params_def required_params_def sample_env_def counted_def)





lemma sample_consume_tool:
  "consume (chunks tool_response) blank_assistant =
     ([Tool_args_delta ''call_1'' ''{}''],
      Inr \<lparr>am_content = [], am_tool_calls =
            [\<lparr>tc_id = ''call_1'', tc_name = ''list_stores'', tc_arguments = ''{}''\<rparr>]\<rparr>)"
  by (simp add: tool_response_def call_chunk_def on_chunk_def on_content_def
        on_tool_call_delta_def pad_calls_def update_call_def py_index_def blank_assistant_def
        blank_call_def)

lemma sample_consume_text:
  "consume (chunks text_response) blank_assistant =
     ([Text_delta ''Two stores.''], Inr \<lparr>am_content = ''Two stores.'', am_tool_calls = []\<rparr>)"
  by (simp add: text_response_def text_chunk_def on_chunk_def on_content_def blank_assistant_def)




lemma sample_tool_round:
  assumes "script i = tool_response"
  shows "\<exists>chat'. openai_round sample_env (scripted_client script) i chat w =
           ((sample_tool_events, Some chat'), w @ [counted ''list_stores''])"
proof -
  have p: "parse_arguments sample_env ''{}'' = Inr (PyDict [])"
    by (simp add: parse_arguments_def sample_env_def)
  have d: "json_dumps sample_env v = Inr ''{}''" for v
    by (simp add: sample_env_def)
  have f: "failure tool_response = None"
    by (simp add: tool_response_def)
  show ?thesis
    by (simp add: openai_round_def scripted_client_def assms sample_consume_tool f p d
          sample_run_tool sample_tool_events_def)
qed

lemma sample_gemini_consume_tool:
  "gemini_consume E i (chunks gemini_tool_response) blank_state = ([], Inl text_accessor_error)"
  by (simp add: gemini_tool_response_def gemini_call_chunk_def on_gemini_chunk_def on_text_def)

lemma sample_gemini_consume_text:
  "gemini_consume sample_env i (chunks gemini_text_response) blank_state =
     ([Text_delta ''Two stores.''], Inr \<lparr>assistant_text = ''Two stores.'', pending_calls = []\<rparr>)"
  by (simp add: gemini_text_response_def gemini_text_chunk_def on_gemini_chunk_def on_text_def
        candidate_parts_def on_part_def blank_state_def)


lemma looping_client_continues: "continues (openai_round sample_env looping_client) i"
  unfolding continues_def looping_client_def
  using sample_tool_round [of "\<lambda>i. tool_response" i] by blast





section \<open>The shape of a round and of a trace\<close>

lemma is_delta_not_terminal: "is_delta e \<Longrightarrow> \<not> is_terminal e"
  by (cases e) auto

lemma is_text_delta_is_delta: "is_text_delta e \<Longrightarrow> is_delta e"
  by (cases e) auto

lemma is_tool_args_delta_is_delta: "is_tool_args_delta e \<Longrightarrow> is_delta e"
  by (cases e) auto

lemma update_call_length: "update_call tcs idx f = Inr tcs' \<Longrightarrow> length tcs' = length tcs"
  by (auto simp: update_call_def split: option.splits)

lemma update_call_nonempty: "update_call tcs idx f = Inr tcs' \<Longrightarrow> tcs' \<noteq> []"
  by (auto simp: update_call_def py_index_def split: option.splits if_splits)

lemma pad_calls_length: "length tcs \<le> length (pad_calls tcs idx)"
  by (simp add: pad_calls_def)

lemma py_index_empty [simp]: "py_index 0 i = None"
  by (simp add: py_index_def)

lemma on_tool_call_delta_shape:
  assumes "on_tool_call_delta d tcs = Inr (evs, tcs')"
  shows "list_all is_tool_args_delta evs \<and> length tcs \<le> length tcs' \<and> (evs \<noteq> [] \<longrightarrow> tcs' \<noteq> [])"
  using assms pad_calls_length [of tcs]
  by (auto simp: on_tool_call_delta_def split: option.splits sum.splits
           dest!: update_call_length dest: update_call_nonempty)

lemma on_tool_call_deltas_shape:
  "on_tool_call_deltas ds tcs = (evs, r) \<Longrightarrow>
     list_all is_tool_args_delta evs
     \<and> (\<forall>tcs'. r = Inr tcs' \<longrightarrow> length tcs \<le> length tcs' \<and> (evs \<noteq> [] \<longrightarrow> tcs' \<noteq> []))"
proof (induction ds arbitrary: tcs evs r)
  case Nil
  then show ?case by auto
next
  case (Cons d ds)
  show ?case
  proof (cases "on_tool_call_delta d tcs")
    case (Inl e)
    with Cons.prems show ?thesis by auto
  next
    case (Inr p)
    obtain evs1 tcs1 where p: "p = (evs1, tcs1)" by (cases p)
    obtain evs2 r2 where rest: "on_tool_call_deltas ds tcs1 = (evs2, r2)"
      by (cases "on_tool_call_deltas ds tcs1")
    from Cons.prems Inr p rest have evs: "evs = evs1 @ evs2" and r: "r = r2" by auto
    note s1 = on_tool_call_delta_shape [OF Inr [unfolded p]]
    note s2 = Cons.IH [OF rest]
    from s1 s2 show ?thesis
      unfolding evs r by (auto simp: list_all_iff)
  qed
qed

lemma on_chunk_shape:
  assumes "on_chunk c am = (evs, r)"
  shows "list_all is_delta evs
     \<and> (\<forall>am'. r = Inr am' \<longrightarrow> length (am_tool_calls am) \<le> length (am_tool_calls am')
            \<and> (am_tool_calls am' = [] \<longrightarrow> list_all is_text_delta evs))"
proof (cases c)
  case None
  with assms show ?thesis by (auto simp: on_chunk_def)
next
  case (Some delta)
  obtain evs1 am1 where c1: "on_content (cd_content delta) am = (evs1, am1)"
    by (cases "on_content (cd_content delta) am")
  then have t1: "list_all is_text_delta evs1" and a1: "am_tool_calls am1 = am_tool_calls am"
    by (auto simp: on_content_def split: option.splits)
  show ?thesis
  proof (cases "cd_tool_calls delta")
    case None
    with assms Some c1 t1 a1 show ?thesis
      by (auto simp: on_chunk_def list_all_iff intro: is_text_delta_is_delta)
  next
    case (Some ds)
    obtain evs2 r2 where c2: "on_tool_call_deltas ds (am_tool_calls am1) = (evs2, r2)"
      by (cases "on_tool_call_deltas ds (am_tool_calls am1)")
    note s2 = on_tool_call_deltas_shape [OF c2]
    from assms \<open>c = Some delta\<close> Some c1 c2 have evs: "evs = evs1 @ evs2"
      by (auto simp: on_chunk_def split: sum.splits)
    from assms \<open>c = Some delta\<close> Some c1 c2
    have r: "\<forall>am'. r = Inr am' \<longrightarrow> (\<exists>tcs. r2 = Inr tcs \<and> am_tool_calls am' = tcs)"
      by (auto simp: on_chunk_def split: sum.splits)
    from s2 t1 a1 r show ?thesis
      unfolding evs
      by (auto simp: list_all_iff intro: is_text_delta_is_delta is_tool_args_delta_is_delta)
  qed
qed

lemma consume_shape:
  "consume cs am = (evs, r) \<Longrightarrow>
     list_all is_delta evs
     \<and> (\<forall>am'. r = Inr am' \<longrightarrow> length (am_tool_calls am) \<le> length (am_tool_calls am')
            \<and> (am_tool_calls am' = [] \<longrightarrow> list_all is_text_delta evs))"
proof (induction cs arbitrary: am evs r)
  case Nil
  then show ?case by auto
next
  case (Cons c cs)
  obtain evs1 r1 where c1: "on_chunk c am = (evs1, r1)"
    by (cases "on_chunk c am")
  note s1 = on_chunk_shape [OF c1]
  show ?case
  proof (cases r1)
    case (Inl e)
    with Cons.prems c1 s1 show ?thesis by auto
  next
    case (Inr am1)
    obtain evs2 r2 where c2: "consume cs am1 = (evs2, r2)"
      by (cases "consume cs am1")
    note s2 = Cons.IH [OF c2]
    from Cons.prems c1 Inr c2 have evs: "evs = evs1 @ evs2" and r: "r = r2" by auto
    from s1 s2 Inr show ?thesis
      unfolding evs r by (auto simp: list_all_iff)
  qed
qed

lemma execute_tool_calls_open:
  "execute_tool_calls E tcs chat w = ((evs, r), w') \<Longrightarrow> open_round evs"
proof (induction tcs arbitrary: chat w evs r w')
  case Nil
  then show ?case by (simp add: open_round_def)
next
  case (Cons tc tcs)
  then show ?case
    by (fastforce simp: open_round_def split: sum.splits prod.splits)
qed

lemma open_round_deltas: "list_all is_delta evs \<Longrightarrow> open_round evs"
  by (auto simp: open_round_def list_all_iff dest: is_delta_not_terminal)

lemma open_round_append [simp]: "open_round (xs @ ys) = (open_round xs \<and> open_round ys)"
  by (simp add: open_round_def)

lemma closed_round_snoc: "open_round xs \<Longrightarrow> is_terminal t \<Longrightarrow> closed_round (xs @ [t])"
  by (simp add: closed_round_def)

lemma openai_round_shape:
  assumes "openai_round E client i chat w = ((evs, next), w')"
  shows "case next of None \<Rightarrow> closed_round evs | Some chat' \<Rightarrow> open_round evs"
proof -
  let ?resp = "create client i (Message ''system'' (system_instructions client) # chat)"
  obtain evs1 r1 where c: "consume (chunks ?resp) blank_assistant = (evs1, r1)"
    by (cases "consume (chunks ?resp) blank_assistant")
  from consume_shape [OF c] have o1: "open_round evs1"
    by (simp add: open_round_deltas)
  show ?thesis
  proof (cases r1)
    case (Inl e)
    with assms c o1 show ?thesis
      by (auto simp: openai_round_def Let_def intro!: closed_round_snoc)
  next
    case (Inr am)
    show ?thesis
    proof (cases "failure ?resp")
      case (Some e)
      with assms c Inr o1 show ?thesis
        by (auto simp: openai_round_def Let_def intro!: closed_round_snoc)
    next
      case None
      show ?thesis
      proof (cases "am_tool_calls am = []")
        case True
        with assms c Inr None o1 show ?thesis
          by (auto simp: openai_round_def Let_def intro!: closed_round_snoc)
      next
        case False
        obtain evs2 r2 w2 where x: "execute_tool_calls E (am_tool_calls am) (chat @ [Assistant am]) w = ((evs2, r2), w2)"
          by (cases "execute_tool_calls E (am_tool_calls am) (chat @ [Assistant am]) w") auto
        from execute_tool_calls_open [OF x] have o2: "open_round evs2" .
        from assms c Inr None False x o1 o2 show ?thesis
          by (cases r2) (auto simp: openai_round_def Let_def closed_round_def butlast_append)
      qed
    qed
  qed
qed

lemma openai_rounds_trace:
  "openai_rounds E client k i chat w = (t, w') \<Longrightarrow> well_formed_trace k t"
proof (induction k arbitrary: i chat w t w')
  case 0
  then show ?case by (auto simp: well_formed_trace_def)
next
  case (Suc k)
  obtain evs nxt w1 where r: "openai_round E client i chat w = ((evs, nxt), w1)"
    by (cases "openai_round E client i chat w") auto
  note s = openai_round_shape [OF r]
  show ?case
  proof (cases nxt)
    case None
    with Suc.prems r s show ?thesis
      by (auto simp: well_formed_trace_def)
  next
    case (Some chat')
    obtain rs ret w2 where rest: "openai_rounds E client k (Suc i) chat' w1 = ((rs, ret), w2)"
      by (cases "openai_rounds E client k (Suc i) chat' w1") auto
    from Suc.IH [OF rest] have wf: "well_formed_trace k (rs, ret)" .
    from Suc.prems r Some rest have t: "t = (evs # rs, ret)" by auto
    from s Some have o: "open_round evs" by simp
    from wf o show ?thesis
      unfolding t by (auto simp: well_formed_trace_def split: if_splits)
  qed
qed

lemma filter_terminal_open: "open_round evs \<Longrightarrow> filter is_terminal evs = []"
  by (induction evs) (auto simp: open_round_def)

lemma filter_terminal_concat_open:
  "list_all open_round rs \<Longrightarrow> filter is_terminal (concat rs) = []"
  by (induction rs) (auto simp: filter_terminal_open)

lemma closed_round_terminated: "closed_round evs \<Longrightarrow> terminated_once evs"
proof -
  assume c: "closed_round evs"
  then have ne: "evs \<noteq> []" and t: "is_terminal (last evs)" and o: "open_round (butlast evs)"
    by (auto simp: closed_round_def)
  from ne have "evs = butlast evs @ [last evs]" by simp
  then have "filter is_terminal evs = filter is_terminal (butlast evs) @ filter is_terminal [last evs]"
    by (metis filter_append)
  with t o have "filter is_terminal evs = [last evs]"
    by (simp add: filter_terminal_open)
  with ne t show ?thesis by (simp add: terminated_once_def)
qed

lemma stream_events_terminated:
  assumes "well_formed_trace k t"
  shows "terminated_once (stream_events n t)"
proof -
  obtain rs ret where t: "t = (rs, ret)" by (cases t)
  show ?thesis
  proof (cases ret)
    case True
    with assms t have ne: "rs \<noteq> []" and c: "closed_round (last rs)" and o: "list_all open_round (butlast rs)"
      by (auto simp: well_formed_trace_def)
    from ne have "concat rs = concat (butlast rs) @ last rs"
      by (metis append_butlast_last_id concat.simps(1) concat.simps(2) concat_append append_Nil2)
    moreover from c have cl: "last rs \<noteq> []" "is_terminal (last (last rs))"
      and tl: "terminated_once (last rs)"
      by (auto simp: closed_round_def closed_round_terminated)
    ultimately show ?thesis
      using o True t
      by (auto simp: stream_events_def terminated_once_def filter_terminal_concat_open)
  next
    case False
    with assms t have "list_all open_round rs" by (auto simp: well_formed_trace_def)
    with False t show ?thesis
      by (auto simp: stream_events_def terminated_once_def filter_terminal_concat_open)
  qed
qed

lemma on_part_shape:
  assumes "on_part E i p pending = Inr (evs, pending')"
  shows "list_all is_tool_args_delta evs \<and> length pending \<le> length pending'
         \<and> (evs \<noteq> [] \<longrightarrow> pending' \<noteq> [])"
  using assms
  by (auto simp: on_part_def Let_def split: option.splits sum.splits)

lemma on_parts_shape:
  "on_parts E i ps pending = (evs, r) \<Longrightarrow>
     list_all is_tool_args_delta evs
     \<and> (\<forall>pending'. r = Inr pending' \<longrightarrow> length pending \<le> length pending'
            \<and> (evs \<noteq> [] \<longrightarrow> pending' \<noteq> []))"
proof (induction ps arbitrary: pending evs r)
  case Nil
  then show ?case by auto
next
  case (Cons p ps)
  show ?case
  proof (cases "on_part E i p pending")
    case (Inl e)
    with Cons.prems show ?thesis by auto
  next
    case (Inr q)
    obtain evs1 pending1 where q: "q = (evs1, pending1)" by (cases q)
    obtain evs2 r2 where rest: "on_parts E i ps pending1 = (evs2, r2)"
      by (cases "on_parts E i ps pending1")
    from Cons.prems Inr q rest have evs: "evs = evs1 @ evs2" and r: "r = r2" by auto
    note s1 = on_part_shape [OF Inr [unfolded q]]
    note s2 = Cons.IH [OF rest]
    from s1 s2 show ?thesis
      unfolding evs r by (auto simp: list_all_iff)
  qed
qed

lemma on_candidates_shape:
  "on_candidates E i cands pending = (evs, r) \<Longrightarrow>
     list_all is_tool_args_delta evs
     \<and> (\<forall>pending'. r = Inr pending' \<longrightarrow> length pending \<le> length pending'
            \<and> (evs \<noteq> [] \<longrightarrow> pending' \<noteq> []))"
proof (induction cands arbitrary: pending evs r)
  case Nil
  then show ?case by auto
next
  case (Cons cand cands)
  obtain evs1 r1 where c1: "on_parts E i (candidate_parts cand) pending = (evs1, r1)"
    by (cases "on_parts E i (candidate_parts cand) pending")
  note s1 = on_parts_shape [OF c1]
  show ?case
  proof (cases r1)
    case (Inl e)
    with Cons.prems c1 s1 show ?thesis by auto
  next
    case (Inr pending1)
    obtain evs2 r2 where c2: "on_candidates E i cands pending1 = (evs2, r2)"
      by (cases "on_candidates E i cands pending1")
    note s2 = Cons.IH [OF c2]
    from Cons.prems c1 Inr c2 have evs: "evs = evs1 @ evs2" and r: "r = r2" by auto
    from s1 s2 Inr show ?thesis
      unfolding evs r by (auto simp: list_all_iff)
  qed
qed

lemma on_gemini_chunk_shape:
  assumes "on_gemini_chunk E i c st = (evs, r)"
  shows "list_all is_delta evs
     \<and> (\<forall>st'. r = Inr st' \<longrightarrow> length (pending_calls st) \<le> length (pending_calls st')
            \<and> (pending_calls st' = [] \<longrightarrow> list_all is_text_delta evs))"
proof (cases "on_text (gc_text c) st")
  case (Inl e)
  with assms show ?thesis by (auto simp: on_gemini_chunk_def)
next
  case (Inr q)
  obtain evs1 st1 where q: "q = (evs1, st1)" by (cases q)
  from Inr q have c1: "on_text (gc_text c) st = Inr (evs1, st1)" by simp
  then have t1: "list_all is_text_delta evs1" and a1: "pending_calls st1 = pending_calls st"
    by (auto simp: on_text_def split: sum.splits option.splits)
  let ?cands = "case gc_candidates c of None \<Rightarrow> [] | Some cands \<Rightarrow> cands"
  obtain evs2 r2 where c2: "on_candidates E i ?cands (pending_calls st1) = (evs2, r2)"
    by (cases "on_candidates E i ?cands (pending_calls st1)")
  note s2 = on_candidates_shape [OF c2]
  from assms c1 c2 have evs: "evs = evs1 @ evs2"
    by (auto simp: on_gemini_chunk_def split: sum.splits)
  from assms c1 c2
  have r: "\<forall>st'. r = Inr st' \<longrightarrow> (\<exists>pending. r2 = Inr pending \<and> pending_calls st' = pending)"
    by (auto simp: on_gemini_chunk_def split: sum.splits)
  from s2 t1 a1 r show ?thesis
    unfolding evs
    by (auto simp: list_all_iff intro: is_text_delta_is_delta is_tool_args_delta_is_delta)
qed

lemma gemini_consume_shape:
  "gemini_consume E i cs st = (evs, r) \<Longrightarrow>
     list_all is_delta evs
     \<and> (\<forall>st'. r = Inr st' \<longrightarrow> length (pending_calls st) \<le> length (pending_calls st')
            \<and> (pending_calls st' = [] \<longrightarrow> list_all is_text_delta evs))"
proof (induction cs arbitrary: st evs r)
  case Nil
  then show ?case by auto
next
  case (Cons c cs)
  obtain evs1 r1 where c1: "on_gemini_chunk E i c st = (evs1, r1)"
    by (cases "on_gemini_chunk E i c st")
  note s1 = on_gemini_chunk_shape [OF c1]
  show ?case
  proof (cases r1)
    case (Inl e)
    with Cons.prems c1 s1 show ?thesis by auto
  next
    case (Inr st1)
    obtain evs2 r2 where c2: "gemini_consume E i cs st1 = (evs2, r2)"
      by (cases "gemini_consume E i cs st1")
    note s2 = Cons.IH [OF c2]
    from Cons.prems c1 Inr c2 have evs: "evs = evs1 @ evs2" and r: "r = r2" by auto
    from s1 s2 Inr show ?thesis
      unfolding evs r by (auto simp: list_all_iff)
  qed
qed

lemma gemini_execute_open:
  "gemini_execute E calls contents w = ((evs, r), w') \<Longrightarrow> open_round evs"
proof (induction calls arbitrary: contents w evs r w')
  case Nil
  then show ?case by (simp add: open_round_def)
next
  case (Cons call calls)
  then show ?case
    by (fastforce simp: open_round_def split: sum.splits prod.splits)
qed

lemma gemini_round_shape:
  assumes "gemini_round E model i contents w = ((evs, next), w')"
  shows "case next of None \<Rightarrow> closed_round evs | Some contents' \<Rightarrow> open_round evs"
proof -
  let ?resp = "model i contents"
  obtain evs1 r1 where c: "gemini_consume E i (chunks ?resp) blank_state = (evs1, r1)"
    by (cases "gemini_consume E i (chunks ?resp) blank_state")
  from gemini_consume_shape [OF c] have o1: "open_round evs1"
    by (simp add: open_round_deltas)
  show ?thesis
  proof (cases r1)
    case (Inl e)
    with assms c o1 show ?thesis
      by (auto simp: gemini_round_def Let_def intro!: closed_round_snoc)
  next
    case (Inr st)
    show ?thesis
    proof (cases "failure ?resp")
      case (Some e)
      with assms c Inr o1 show ?thesis
        by (auto simp: gemini_round_def Let_def intro!: closed_round_snoc)
    next
      case None
      show ?thesis
      proof (cases "pending_calls st = []")
        case True
        with assms c Inr None o1 show ?thesis
          by (auto simp: gemini_round_def Let_def intro!: closed_round_snoc)
      next
        case False
        let ?contents = "if assistant_text st \<noteq> []
                         then contents @ [Text_content ''model'' (assistant_text st)] else contents"
        obtain evs2 r2 w2 where x: "gemini_execute E (pending_calls st) ?contents w = ((evs2, r2), w2)"
          by (cases "gemini_execute E (pending_calls st) ?contents w") auto
        from gemini_execute_open [OF x] have o2: "open_round evs2" .
        from assms c Inr None False x o1 o2 show ?thesis
          by (cases r2) (auto simp: gemini_round_def Let_def closed_round_def butlast_append)
      qed
    qed
  qed
qed

lemma gemini_rounds_trace:
  "gemini_rounds E model k i contents w = (t, w') \<Longrightarrow> well_formed_trace k t"
proof (induction k arbitrary: i contents w t w')
  case 0
  then show ?case by (auto simp: well_formed_trace_def)
next
  case (Suc k)
  obtain evs nxt w1 where r: "gemini_round E model i contents w = ((evs, nxt), w1)"
    by (cases "gemini_round E model i contents w") auto
  note s = gemini_round_shape [OF r]
  show ?case
  proof (cases nxt)
    case None
    with Suc.prems r s show ?thesis
      by (auto simp: well_formed_trace_def)
  next
    case (Some contents')
    obtain rs ret w2 where rest: "gemini_rounds E model k (Suc i) contents' w1 = ((rs, ret), w2)"
      by (cases "gemini_rounds E model k (Suc i) contents' w1") auto
    from Suc.IH [OF rest] have wf: "well_formed_trace k (rs, ret)" .
    from Suc.prems r Some rest have t: "t = (evs # rs, ret)" by auto
    from s Some have o: "open_round evs" by simp
    from wf o show ?thesis
      unfolding t by (auto simp: well_formed_trace_def split: if_splits)
  qed
qed

section \<open>One terminal event, at the end\<close>

lemma openai_stream_terminated:
  assumes "chat_messages_of messages = Inr chat"
  shows "\<exists>evs w'. openai_stream E client messages n w = (Inr evs, w') \<and> terminated_once evs"
proof -
  obtain t w' where r: "openai_rounds E client (nat n) 0 chat w = (t, w')"
    by (cases "openai_rounds E client (nat n) 0 chat w")
  from openai_rounds_trace [OF r] have "well_formed_trace (nat n) t" .
  then have "terminated_once (stream_events n t)" by (rule stream_events_terminated)
  with assms r show ?thesis
    by (simp add: openai_stream_def openai_stream_rounds_def)
qed

lemma gemini_stream_terminated:
  "terminated_once (fst (gemini_stream E model messages n w))"
proof -
  obtain t w' where r: "gemini_rounds E model (nat n) 0 (convert_messages_to_contents messages) w = (t, w')"
    by (cases "gemini_rounds E model (nat n) 0 (convert_messages_to_contents messages) w")
  from gemini_rounds_trace [OF r] have "well_formed_trace (nat n) t" .
  then have "terminated_once (stream_events n t)" by (rule stream_events_terminated)
  with r show ?thesis
    by (simp add: gemini_stream_def gemini_stream_rounds_def)
qed

lemma chat_messages_of_total:
  "list_all has_role_and_content messages \<Longrightarrow> \<exists>chat. chat_messages_of messages = Inr chat"
  by (induction messages) (auto simp: has_role_and_content_def)

text \<open>
  Once the conversation is built, every path through the round loop of either adapter
  ends the sequence with its only terminal event. \<open>openai_agent.stream\<close> builds the
  conversation with \<open>m["role"]\<close> and \<open>m["content"]\<close>, so this needs the two keys in every
  message; \<open>_convert_messages_to_contents\<close> reads them with \<open>m.get\<close> and a default, so
  \<open>gemini_agent.stream\<close> needs nothing of the messages.
\<close>

lemma terminal_event_once_the_conversation_is_built:
  "(list_all has_role_and_content messages \<longrightarrow>
      (\<exists>evs w'. openai_stream E client messages n w = (Inr evs, w') \<and> terminated_once evs))
   \<and> terminated_once (fst (gemini_stream E model messages n w))"
  using chat_messages_of_total [of messages] openai_stream_terminated [of messages _ E client n w]
    gemini_stream_terminated [of E model messages n w]
  by blast

text \<open>
  The Gemini adapter on the message list \<open>[{}]\<close>, whose one message has neither \<open>role\<close> nor
  \<open>content\<close>: the keys are defaulted, the round is performed and the sequence ends in
  \<open>done\<close>.
\<close>

lemma gemini_defaults_missing_keys:
  "gemini_stream sample_env text_model [[]] 3 [] = ([Text_delta ''Two stores.'', Done], [])"
  by (simp add: gemini_stream_def gemini_stream_rounds_def numeral_3_eq_3 gemini_round_def
        text_model_def sample_gemini_consume_text stream_events_def)
     (simp add: gemini_text_response_def)

text \<open>
  C1 requires of every message list and every round budget that \<open>stream\<close> yields exactly
  one terminal event. \<open>openai_agent.stream\<close> does not on the same list \<open>[{}]\<close>: the list
  comprehension before the loop evaluates \<open>m["role"]\<close> outside any \<open>try\<close>, \<open>KeyError('role')\<close>
  leaves the generator, and no event at all has been yielded, neither \<open>done\<close> nor \<open>error\<close>.
\<close>

theorem missing_key_raises_before_any_event:
  "openai_stream sample_env text_client [[]] 3 [] = (Inl (Exn KeyError (quoted ''role'')), [])"
  by (simp add: openai_stream_def openai_stream_rounds_def key_error_def)

section \<open>The rounds of the loop\<close>

lemma openai_rounds_loop:
  "openai_rounds E client k i chat w = rounds_loop (openai_round E client) k i chat w"
  by (induction k arbitrary: i chat w) (auto split: prod.splits option.splits)


lemma rounds_loop_all_continue:
  "(\<And>i. i < k \<Longrightarrow> continues step (j + i)) \<Longrightarrow>
     \<exists>rs w'. rounds_loop step k j c w = ((rs, False), w') \<and> length rs = k"
proof (induction k arbitrary: j c w)
  case 0
  then show ?case by simp
next
  case (Suc k)
  from Suc.prems [of 0] obtain evs c' w1 where st: "step j c w = ((evs, Some c'), w1)"
    unfolding continues_def by fastforce
  have "\<And>i. i < k \<Longrightarrow> continues step (Suc j + i)"
    using Suc.prems [of "Suc _"] by simp
  from Suc.IH [OF this, of c' w1] obtain rs w2
    where "rounds_loop step k (Suc j) c' w1 = ((rs, False), w2)" and "length rs = k"
    by blast
  with st show ?case by simp
qed






section \<open>A provider exception\<close>







section \<open>The round budget\<close>

lemma limit_message_mentions_limit: "sublist (str_int n) (limit_message n)"
  unfolding limit_message_def by (rule sublist_appendI)

lemma openai_budget_exhausted:
  assumes "chat_messages_of messages = Inr chat"
    and "\<forall>i < nat n. continues (openai_round E client) i"
  shows "\<exists>rs w'. openai_stream_rounds E client messages n w = (Inr (rs, False), w')
           \<and> length rs = nat n \<and> list_all open_round rs
           \<and> openai_stream E client messages n w = (Inr (concat rs @ [Error (limit_message n)]), w')"
proof -
  from assms(2) have "\<And>i. i < nat n \<Longrightarrow> continues (openai_round E client) (0 + i)" by simp
  from rounds_loop_all_continue [OF this, of "nat n" chat w] obtain rs w'
    where loop: "openai_rounds E client (nat n) 0 chat w = ((rs, False), w')" and len: "length rs = nat n"
    by (auto simp: openai_rounds_loop)
  from openai_rounds_trace [OF loop] have "list_all open_round rs"
    by (simp add: well_formed_trace_def)
  with loop len assms(1) show ?thesis
    by (simp add: openai_stream_def openai_stream_rounds_def stream_events_def)
qed

text \<open>
  The OpenAI adapter on a provider that requests \<open>list_stores\<close> in every round, with a
  budget of two rounds: two rounds of tool events, then the error of the exhausted
  budget.
\<close>

lemma openai_budget_exhausted_sample:
  "fst (openai_stream sample_env looping_client sample_messages 2 []) =
     Inr (sample_tool_events @ sample_tool_events @ [Error (limit_message 2)])"
  by code_simp

text \<open>
  In the Gemini adapter a chunk whose \<open>text\<close> property raises ends the round at line 122:
  the handler of the round yields one \<open>error\<close> event with the message of the exception and
  returns, so the function calls of the chunk are never read.
\<close>

lemma text_accessor_raise_ends_the_round:
  assumes "chunks (model i contents) = c # cs" and "gc_text c = Inl e"
  shows "gemini_round E model i contents w = (([Error (str_exn e)], None), w)"
  using assms by (simp add: gemini_round_def on_gemini_chunk_def on_text_def)

text \<open>
  C4 requires that a model which requests a tool on every round makes \<open>stream\<close> perform
  exactly \<open>max_rounds\<close> rounds and end in one \<open>error\<close> event whose message mentions the
  round limit. \<open>gemini_agent.stream\<close> does not. The provider \<open>requesting_model\<close> answers
  every call with one chunk that carries a function call for \<open>list_stores\<close>; the budget
  is 3. The OpenAI adapter, on its provider of that kind, performs every round of the
  budget and ends with the error of the limit, as the lemmas above show. Reading
  \<open>chunk.text\<close> in round 0 raises \<open>ValueError\<close>, which \<open>getattr\<close> does not absorb: one round
  is performed instead of three, no tool is called, and the only event is an \<open>error\<close>
  whose message is that of the \<open>ValueError\<close> and does not mention the limit.
\<close>

theorem function_call_chunk_ends_the_first_round:
  "gemini_stream_rounds sample_env requesting_model sample_messages 3 [] =
     (([[Error ''Could not convert `part.function_call` to text.'']], True), [])
   \<and> gemini_stream sample_env requesting_model sample_messages 3 [] =
     ([Error ''Could not convert `part.function_call` to text.''], [])
   \<and> \<not> sublist (str_int 3) ''Could not convert `part.function_call` to text.''"
proof -
  have r: "gemini_round sample_env requesting_model 0 contents w =
      (([Error ''Could not convert `part.function_call` to text.''], None), w)" for contents w
    using text_accessor_raise_ends_the_round
            [of requesting_model 0 contents "gemini_call_chunk ''list_stores''" "[]"
                text_accessor_error sample_env w]
    by (simp add: requesting_model_def gemini_tool_response_def gemini_call_chunk_def
          text_accessor_error_def)
  have a: "gemini_stream_rounds sample_env requesting_model sample_messages 3 [] =
     (([[Error ''Could not convert `part.function_call` to text.'']], True), [])"
    by (simp add: gemini_stream_rounds_def numeral_3_eq_3 r)
  then have b: "gemini_stream sample_env requesting_model sample_messages 3 [] =
     ([Error ''Could not convert `part.function_call` to text.''], [])"
    by (simp add: gemini_stream_def stream_events_def)
  have c: "\<not> sublist (str_int 3) ''Could not convert `part.function_call` to text.''"
    by code_simp
  from a b c show ?thesis by (intro conjI)
qed

section \<open>A tool-free first response\<close>

lemma openai_first_response_tool_free:
  assumes "chat_messages_of messages = Inr chat" and "0 < n"
    and "openai_tool_free client 0 chat evs"
  shows "openai_stream_rounds E client messages n w = (Inr ([evs @ [Done]], True), w)
       \<and> openai_stream E client messages n w = (Inr (evs @ [Done]), w)
       \<and> list_all is_text_delta evs"
proof -
  let ?resp = "create client 0 (Message ''system'' (system_instructions client) # chat)"
  from assms(3) obtain am where f: "failure ?resp = None"
    and c: "consume (chunks ?resp) blank_assistant = (evs, Inr am)" and t: "am_tool_calls am = []"
    unfolding openai_tool_free_def Let_def by blast
  from consume_shape [OF c] t have only_text: "list_all is_text_delta evs" by simp
  from f c t have r: "openai_round E client 0 chat w = ((evs @ [Done], None), w)"
    by (simp add: openai_round_def)
  from assms(2) obtain k where k: "nat n = Suc k" by (cases "nat n") auto
  from r k have "openai_rounds E client (nat n) 0 chat w = (([evs @ [Done]], True), w)" by simp
  with assms(1) only_text show ?thesis
    by (simp add: openai_stream_def openai_stream_rounds_def stream_events_def)
qed

lemma gemini_first_response_tool_free:
  assumes "0 < n"
    and "gemini_tool_free E model 0 (convert_messages_to_contents messages) evs"
  shows "gemini_stream_rounds E model messages n w = (([evs @ [Done]], True), w)
       \<and> gemini_stream E model messages n w = (evs @ [Done], w)
       \<and> list_all is_text_delta evs"
proof -
  let ?c = "convert_messages_to_contents messages"
  let ?resp = "model 0 ?c"
  from assms(2) obtain st where f: "failure ?resp = None"
    and c: "gemini_consume E 0 (chunks ?resp) blank_state = (evs, Inr st)" and t: "pending_calls st = []"
    unfolding gemini_tool_free_def Let_def by blast
  from gemini_consume_shape [OF c] t have only_text: "list_all is_text_delta evs" by simp
  from f c t have r: "gemini_round E model 0 ?c w = ((evs @ [Done], None), w)"
    by (simp add: gemini_round_def)
  from assms(1) obtain k where k: "nat n = Suc k" by (cases "nat n") auto
  from r k have "gemini_rounds E model (nat n) 0 ?c w = (([evs @ [Done]], True), w)" by simp
  with only_text show ?thesis
    by (simp add: gemini_stream_def gemini_stream_rounds_def stream_events_def)
qed

text \<open>
  C8. With a budget of at least one round, if the first response streams to its end and
  finalizes no tool call, then one round is performed and the event sequence is the
  \<open>text_delta\<close> events of that response followed by one \<open>done\<close>.
\<close>

theorem tool_free_first_response:
  "(chat_messages_of messages = Inr chat \<and> 0 < n \<and> openai_tool_free client 0 chat evs
     \<longrightarrow> openai_stream_rounds E client messages n w = (Inr ([evs @ [Done]], True), w)
         \<and> openai_stream E client messages n w = (Inr (evs @ [Done]), w)
         \<and> list_all is_text_delta evs)
   \<and> (0 < n \<and> gemini_tool_free E model 0 (convert_messages_to_contents messages) gevs
     \<longrightarrow> gemini_stream_rounds E model messages n w = (([gevs @ [Done]], True), w)
         \<and> gemini_stream E model messages n w = (gevs @ [Done], w)
         \<and> list_all is_text_delta gevs)"
  using openai_first_response_tool_free [of messages chat n client evs E w]
    gemini_first_response_tool_free [of n E model messages gevs w]
  by blast

theorem tool_free_first_response_witness:
  "chat_messages_of sample_messages = Inr [Message ''user'' ''Which stores are there?'']
   \<and> (0 :: int) < 3
   \<and> openai_tool_free text_client 0 [Message ''user'' ''Which stores are there?'']
        [Text_delta ''Two stores.'']
   \<and> openai_stream sample_env text_client sample_messages 3 []
        = (Inr ([Text_delta ''Two stores.''] @ [Done]), [])
   \<and> gemini_tool_free sample_env text_model 0 (convert_messages_to_contents sample_messages)
        [Text_delta ''Two stores.'']
   \<and> gemini_stream sample_env text_model sample_messages 3 []
        = ([Text_delta ''Two stores.''] @ [Done], [])"
proof -
  let ?chat = "[Message ''user'' ''Which stores are there?'']"
  let ?evs = "[Text_delta ''Two stores.'']"
  have a: "chat_messages_of sample_messages = Inr ?chat"
    by (simp add: sample_messages_def)
  have b: "(0 :: int) < 3" by simp
  have c: "openai_tool_free text_client 0 ?chat ?evs"
    by (simp add: openai_tool_free_def text_client_def scripted_client_def sample_consume_text)
       (simp add: text_response_def)
  have gc: "gemini_tool_free sample_env text_model 0 (convert_messages_to_contents sample_messages) ?evs"
    by (simp add: gemini_tool_free_def text_model_def sample_gemini_consume_text)
       (simp add: gemini_text_response_def)
  note t = tool_free_first_response
             [of sample_messages ?chat 3 text_client ?evs sample_env "[]" text_model ?evs]
  note o = t [THEN conjunct1, THEN mp, OF conjI [OF a conjI [OF b c]]]
  note g = t [THEN conjunct2, THEN mp, OF conjI [OF b gc]]
  from a b c o [THEN conjunct2, THEN conjunct1] gc g [THEN conjunct2, THEN conjunct1]
  show ?thesis by (intro conjI)
qed

section \<open>Rounds with one tool call\<close>




























end
